theory Spec2Isabelle
  imports Complex_Main
begin

section \<open>Shared data: status codes, exceptions, messages\<close>

text \<open>
  The services talk gRPC. A servicer method receives a request and a context; it
  reports a failure by setting a status code and details on the context and returning
  an empty message. A Python exception is the left summand of the result.

  Python floats are modelled as real numbers: rounding is idealised. The one place where
  the finite range of a double changes the control flow of the code, \<^verbatim>\<open>math.exp\<close>
  raising OverflowError, is kept as an error branch. The outcome model is given a second
  time over floats that may be NaN, since a request can carry NaN features.
\<close>

datatype status_code = OK | NOT_FOUND | INVALID_ARGUMENT | UNKNOWN | UNAVAILABLE

datatype py_exception = RpcError status_code string | OverflowError

record servicer_context =
  code :: status_code
  details :: string

definition fresh_context :: servicer_context where
  "fresh_context = \<lparr>code = OK, details = ''''\<rparr>"

definition set_code :: "status_code \<Rightarrow> servicer_context \<Rightarrow> servicer_context" where
  "set_code c context = context\<lparr>code := c\<rparr>"

definition set_details :: "string \<Rightarrow> servicer_context \<Rightarrow> servicer_context" where
  "set_details d context = context\<lparr>details := d\<rparr>"

record Match =
  match_ident :: string
  home_team_id :: string
  away_team_id :: string
  kick_off_utc :: string
  stage :: string

definition empty_Match :: Match where
  "empty_Match = \<lparr>match_ident = '''', home_team_id = '''', away_team_id = '''',
     kick_off_utc = '''', stage = ''''\<rparr>"

record PredictMatchOutcomeResponse =
  home_win_prob :: real
  draw_prob :: real
  away_win_prob :: real

definition empty_PredictMatchOutcomeResponse :: PredictMatchOutcomeResponse where
  "empty_PredictMatchOutcomeResponse = \<lparr>home_win_prob = 0, draw_prob = 0, away_win_prob = 0\<rparr>"

section \<open>model\_service.py\<close>

text \<open>
  \<^verbatim>\<open>math.exp\<close> raises OverflowError ("math range error") when the result does not
  fit a double; \<open>DBL_MAX\<close> is the largest finite double.
\<close>

definition DBL_MAX :: real where
  "DBL_MAX = (2 - 1 / 2 ^ 52) * 2 ^ 1023"

definition math_exp :: "real \<Rightarrow> py_exception + real" where
  "math_exp x = (if DBL_MAX < exp x then Inl OverflowError else Inr (exp x))"

text \<open>\<^verbatim>\<open>_sigmoid(x)\<close>: \<^verbatim>\<open>return 1.0 / (1.0 + math.exp(-x))\<close>.\<close>

definition sigmoid :: "real \<Rightarrow> py_exception + real" where
  "sigmoid x = (case math_exp (- x) of Inl e \<Rightarrow> Inl e | Inr y \<Rightarrow> Inr (1 / (1 + y)))"

text \<open>
  Lines 56 to 62 of \<^verbatim>\<open>PredictMatchOutcome\<close>: the total of the three raw values and the
  division by it, with the fallback to one third each when the total is not positive.
\<close>

definition normalize_probs :: "real \<Rightarrow> real \<Rightarrow> real \<Rightarrow> PredictMatchOutcomeResponse" where
  "normalize_probs home_win draw away_win =
     (let total = home_win + draw + away_win in
      if total \<le> 0
      then \<lparr>home_win_prob = 1 / 3, draw_prob = 1 / 3, away_win_prob = 1 / 3\<rparr>
      else \<lparr>home_win_prob = home_win / total, draw_prob = draw / total,
             away_win_prob = away_win / total\<rparr>)"

text \<open>
  \<^verbatim>\<open>base\<close> of the model: \<^verbatim>\<open>elo_diff / 300.0\<close>, times \<^verbatim>\<open>1.2\<close> when
  \<^verbatim>\<open>is_knockout > 0.5\<close>.
\<close>

definition model_base :: "real \<Rightarrow> real \<Rightarrow> real" where
  "model_base elo_diff is_knockout =
     (if is_knockout > 1 / 2 then elo_diff / 300 * (12 / 10) else elo_diff / 300)"

text \<open>
  \<^verbatim>\<open>ModelServiceServicer.PredictMatchOutcome\<close>. The request is its list of features.
  With fewer than four features the context gets INVALID\_ARGUMENT and the empty response
  is returned. Otherwise only \<^verbatim>\<open>features[2]\<close> (elo\_diff) and \<^verbatim>\<open>features[3]\<close>
  (is\_knockout) are used.
\<close>

definition PredictMatchOutcome ::
  "real list \<Rightarrow> servicer_context \<Rightarrow> py_exception + (PredictMatchOutcomeResponse \<times> servicer_context)" where
  "PredictMatchOutcome features context =
     (if length features < 4
      then Inr (empty_PredictMatchOutcomeResponse,
                set_details ''expected at least 4 features'' (set_code INVALID_ARGUMENT context))
      else
        let elo_diff = features ! 2;
            is_knockout = features ! 3;
            base = model_base elo_diff is_knockout
        in case sigmoid base of
             Inl e \<Rightarrow> Inl e
           | Inr home_win \<Rightarrow>
               let elo_gap = \<bar>elo_diff\<bar>;
                   draw = max (15 / 100) (35 / 100 - elo_gap / 1000);
                   away_win = max 0 (1 - home_win - draw)
               in Inr (normalize_probs home_win draw away_win, context))"


subsection \<open>The outcome model over floats that may be NaN\<close>

text \<open>
  A feature is a Python float, and a request can carry NaN. A \<open>pyfloat\<close> is a finite
  float (a real; rounding idealised) or NaN. Arithmetic with a NaN operand gives NaN and
  every comparison with NaN is false. From finite or NaN operands the operations of the
  servicer give no infinity: \<^verbatim>\<open>math.exp\<close> raises instead. A zero divisor would raise
  ZeroDivisionError; the servicer divides by 300.0, by 1000.0, by 1.0 plus an exponential
  and by a total for which \<^verbatim>\<open>total <= 0\<close> was false, never by zero.
\<close>

datatype pyfloat = Fin real | NaN

definition float_op :: "(real \<Rightarrow> real \<Rightarrow> real) \<Rightarrow> pyfloat \<Rightarrow> pyfloat \<Rightarrow> pyfloat" where
  "float_op f a b =
     (case a of NaN \<Rightarrow> NaN | Fin x \<Rightarrow> (case b of NaN \<Rightarrow> NaN | Fin y \<Rightarrow> Fin (f x y)))"

definition float_add :: "pyfloat \<Rightarrow> pyfloat \<Rightarrow> pyfloat" where
  "float_add a b = float_op (\<lambda>x y. x + y) a b"

definition float_sub :: "pyfloat \<Rightarrow> pyfloat \<Rightarrow> pyfloat" where
  "float_sub a b = float_op (\<lambda>x y. x - y) a b"

definition float_mul :: "pyfloat \<Rightarrow> pyfloat \<Rightarrow> pyfloat" where
  "float_mul a b = float_op (\<lambda>x y. x * y) a b"

definition float_div :: "pyfloat \<Rightarrow> pyfloat \<Rightarrow> pyfloat" where
  "float_div a b = float_op (\<lambda>x y. x / y) a b"

definition float_neg :: "pyfloat \<Rightarrow> pyfloat" where
  "float_neg a = (case a of NaN \<Rightarrow> NaN | Fin x \<Rightarrow> Fin (- x))"

definition float_abs :: "pyfloat \<Rightarrow> pyfloat" where
  "float_abs a = (case a of NaN \<Rightarrow> NaN | Fin x \<Rightarrow> Fin \<bar>x\<bar>)"

definition float_gt :: "pyfloat \<Rightarrow> pyfloat \<Rightarrow> bool" where
  "float_gt a b =
     (case a of NaN \<Rightarrow> False | Fin x \<Rightarrow> (case b of NaN \<Rightarrow> False | Fin y \<Rightarrow> x > y))"

definition float_le :: "pyfloat \<Rightarrow> pyfloat \<Rightarrow> bool" where
  "float_le a b =
     (case a of NaN \<Rightarrow> False | Fin x \<Rightarrow> (case b of NaN \<Rightarrow> False | Fin y \<Rightarrow> x \<le> y))"

text \<open>
  Python's \<^verbatim>\<open>max(a, b)\<close> keeps \<^verbatim>\<open>a\<close> unless \<^verbatim>\<open>b > a\<close>; so
  \<^verbatim>\<open>max(0.15, nan)\<close> is \<^verbatim>\<open>0.15\<close>.
\<close>

definition py_max :: "pyfloat \<Rightarrow> pyfloat \<Rightarrow> pyfloat" where
  "py_max a b = (if float_gt b a then b else a)"

text \<open>\<^verbatim>\<open>math.exp(nan)\<close> is \<^verbatim>\<open>nan\<close>, without an error.\<close>

definition math_exp_float :: "pyfloat \<Rightarrow> py_exception + pyfloat" where
  "math_exp_float a =
     (case a of
        NaN \<Rightarrow> Inr NaN
      | Fin x \<Rightarrow> (case math_exp x of Inl e \<Rightarrow> Inl e | Inr y \<Rightarrow> Inr (Fin y)))"

definition sigmoid_float :: "pyfloat \<Rightarrow> py_exception + pyfloat" where
  "sigmoid_float x =
     (case math_exp_float (float_neg x) of
        Inl e \<Rightarrow> Inl e
      | Inr y \<Rightarrow> Inr (float_div (Fin 1) (float_add (Fin 1) y)))"

record PredictMatchOutcomeResponse_float =
  home_win_prob_f :: pyfloat
  draw_prob_f :: pyfloat
  away_win_prob_f :: pyfloat

text \<open>\<^verbatim>\<open>ModelServiceServicer.PredictMatchOutcome\<close>, statement by statement, over \<open>pyfloat\<close>.\<close>

definition PredictMatchOutcome_float ::
  "pyfloat list \<Rightarrow> servicer_context
     \<Rightarrow> py_exception + (PredictMatchOutcomeResponse_float \<times> servicer_context)" where
  "PredictMatchOutcome_float features context =
     (if length features < 4
      then Inr (\<lparr>home_win_prob_f = Fin 0, draw_prob_f = Fin 0, away_win_prob_f = Fin 0\<rparr>,
                set_details ''expected at least 4 features'' (set_code INVALID_ARGUMENT context))
      else
        let elo_diff = features ! 2;
            is_knockout = features ! 3;
            base = float_div elo_diff (Fin 300);
            base = (if float_gt is_knockout (Fin (1 / 2))
                    then float_mul base (Fin (12 / 10)) else base)
        in case sigmoid_float base of
             Inl e \<Rightarrow> Inl e
           | Inr home_win \<Rightarrow>
               let elo_gap = float_abs elo_diff;
                   draw = py_max (Fin (15 / 100))
                            (float_sub (Fin (35 / 100)) (float_div elo_gap (Fin 1000)));
                   away_win = py_max (Fin 0) (float_sub (float_sub (Fin 1) home_win) draw);
                   total = float_add (float_add home_win draw) away_win
               in if float_le total (Fin 0)
                  then Inr (\<lparr>home_win_prob_f = Fin (1 / 3), draw_prob_f = Fin (1 / 3),
                              away_win_prob_f = Fin (1 / 3)\<rparr>, context)
                  else Inr (\<lparr>home_win_prob_f = float_div home_win total,
                              draw_prob_f = float_div draw total,
                              away_win_prob_f = float_div away_win total\<rparr>, context))"

section \<open>match\_service.py\<close>

text \<open>
  \<^verbatim>\<open>MatchRepository\<close>: the dictionary \<^verbatim>\<open>_matches\<close> from match id to match.
  \<^verbatim>\<open>get_match\<close> is \<^verbatim>\<open>self._matches.get(match_id)\<close>.
\<close>

type_synonym MatchRepository = "string \<rightharpoonup> Match"

definition get_match :: "MatchRepository \<Rightarrow> string \<Rightarrow> Match option" where
  "get_match repo match_id = repo match_id"

text \<open>
  \<^verbatim>\<open>MatchServiceServicer.GetMatch\<close>: an unknown id sets NOT\_FOUND with the details
  "Match not found" and returns the empty response.
\<close>

definition GetMatch ::
  "MatchRepository \<Rightarrow> string \<Rightarrow> servicer_context \<Rightarrow> py_exception + (Match \<times> servicer_context)" where
  "GetMatch repo match_id context =
     (case get_match repo match_id of
        None \<Rightarrow> Inr (empty_Match, set_details ''Match not found'' (set_code NOT_FOUND context))
      | Some m \<Rightarrow> Inr (m, context))"

text \<open>
  What a caller sees through a gRPC client stub (the gRPC runtime is a library, not part of
  the repository): the response when the servicer left the status OK, and otherwise a raised
  \<^verbatim>\<open>grpc.RpcError\<close> carrying the status code and details the servicer set. An exception
  escaping the servicer reaches the caller as status UNKNOWN; the details of the runtime
  go on with the text of the exception, which is cut short here.
\<close>

definition unary_unary ::
  "('req \<Rightarrow> servicer_context \<Rightarrow> py_exception + ('resp \<times> servicer_context)) \<Rightarrow> 'req
     \<Rightarrow> py_exception + 'resp" where
  "unary_unary handler request =
     (case handler request fresh_context of
        Inl e \<Rightarrow> Inl (RpcError UNKNOWN ''Exception calling application'')
      | Inr (response, context) \<Rightarrow>
          if code context = OK then Inr response
          else Inl (RpcError (code context) (details context)))"

section \<open>prediction\_service.py\<close>

subsection \<open>SimplePredictionCache\<close>

text \<open>
  \<^verbatim>\<open>_data\<close> maps a match id to \<^verbatim>\<open>(timestamp, home, draw, away)\<close>.
  \<^verbatim>\<open>get\<close> is \<^verbatim>\<open>self._data.get(match_id)\<close>; \<^verbatim>\<open>set\<close> is
  \<^verbatim>\<open>self._data[match_id] = (timestamp, home, draw, away)\<close>.
\<close>

type_synonym cache_data = "string \<rightharpoonup> real \<times> real \<times> real \<times> real"

definition cache_get :: "cache_data \<Rightarrow> string \<Rightarrow> (real \<times> real \<times> real \<times> real) option" where
  "cache_get data match_id = data match_id"

definition cache_set ::
  "cache_data \<Rightarrow> string \<Rightarrow> real \<Rightarrow> real \<Rightarrow> real \<Rightarrow> real \<Rightarrow> cache_data" where
  "cache_set data match_id timestamp home draw away =
     data(match_id \<mapsto> (timestamp, home, draw, away))"

subsection \<open>The servicer, its collaborators and its state\<close>

text \<open>
  The three stubs are handed to the servicer at construction. Each is a remote service:
  a call returns a response or raises, and may change the world outside (type \<open>'w\<close>),
  which also holds the clock read by \<^verbatim>\<open>time.time()\<close> and advanced by
  \<^verbatim>\<open>time.sleep\<close>.
\<close>

record 'w collaborators =
  GetMatch_stub :: "string \<Rightarrow> 'w \<Rightarrow> (py_exception + Match) \<times> 'w"
  BuildMatchFeatures_stub :: "string \<Rightarrow> 'w \<Rightarrow> (py_exception + real list) \<times> 'w"
  PredictMatchOutcome_stub ::
    "real list \<Rightarrow> 'w \<Rightarrow> (py_exception + PredictMatchOutcomeResponse) \<times> 'w"
  time_time :: "'w \<Rightarrow> real"
  time_sleep :: "real \<Rightarrow> 'w \<Rightarrow> 'w"

text \<open>
  The trace records, in order, every cache access, collaborator call and sleep the
  servicer performs.
\<close>

datatype event =
  EvCacheGet string
| EvGetMatch string
| EvBuildMatchFeatures string
| EvPredictMatchOutcome
| EvCacheSet string
| EvSleep real

record 'w servicer_state =
  world :: 'w
  cache :: cache_data
  trace :: "event list"

record GetPredictionResponse = PredictMatchOutcomeResponse +
  match_id :: string
  match_msg :: Match

definition call_GetMatch ::
  "'w collaborators \<Rightarrow> string \<Rightarrow> 'w servicer_state \<Rightarrow> (py_exception + Match) \<times> 'w servicer_state" where
  "call_GetMatch env mid s =
     (case GetMatch_stub env mid (world s) of
        (r, w) \<Rightarrow> (r, s\<lparr>world := w, trace := trace s @ [EvGetMatch mid]\<rparr>))"

definition call_BuildMatchFeatures ::
  "'w collaborators \<Rightarrow> string \<Rightarrow> 'w servicer_state \<Rightarrow> (py_exception + real list) \<times> 'w servicer_state" where
  "call_BuildMatchFeatures env mid s =
     (case BuildMatchFeatures_stub env mid (world s) of
        (r, w) \<Rightarrow> (r, s\<lparr>world := w, trace := trace s @ [EvBuildMatchFeatures mid]\<rparr>))"

definition call_PredictMatchOutcome ::
  "'w collaborators \<Rightarrow> real list \<Rightarrow> 'w servicer_state
     \<Rightarrow> (py_exception + PredictMatchOutcomeResponse) \<times> 'w servicer_state" where
  "call_PredictMatchOutcome env features s =
     (case PredictMatchOutcome_stub env features (world s) of
        (r, w) \<Rightarrow> (r, s\<lparr>world := w, trace := trace s @ [EvPredictMatchOutcome]\<rparr>))"

text \<open>
  \<^verbatim>\<open>_compute_prediction\<close>: match, then features, then model, then the cache write
  stamped with \<^verbatim>\<open>time.time()\<close>. An exception of a stub leaves the method at once.
\<close>

definition compute_prediction ::
  "'w collaborators \<Rightarrow> string \<Rightarrow> 'w servicer_state
     \<Rightarrow> (py_exception + GetPredictionResponse) \<times> 'w servicer_state" where
  "compute_prediction env mid s =
     (case call_GetMatch env mid s of
        (Inl e, s1) \<Rightarrow> (Inl e, s1)
      | (Inr m, s1) \<Rightarrow>
          (case call_BuildMatchFeatures env mid s1 of
             (Inl e, s2) \<Rightarrow> (Inl e, s2)
           | (Inr features, s2) \<Rightarrow>
               (case call_PredictMatchOutcome env features s2 of
                  (Inl e, s3) \<Rightarrow> (Inl e, s3)
                | (Inr model_resp, s3) \<Rightarrow>
                    let now_ts = time_time env (world s3);
                        s4 = s3\<lparr>cache := cache_set (cache s3) mid now_ts
                                     (home_win_prob model_resp) (draw_prob model_resp)
                                     (away_win_prob model_resp),
                                 trace := trace s3 @ [EvCacheSet mid]\<rparr>
                    in (Inr \<lparr>home_win_prob = home_win_prob model_resp,
                              draw_prob = draw_prob model_resp,
                              away_win_prob = away_win_prob model_resp,
                              match_id = mid, match_msg = m\<rparr>, s4))))"

text \<open>
  \<^verbatim>\<open>GetPrediction\<close>: a cached tuple younger than 10 seconds is trusted; the match is
  fetched again and returned with the cached values. Otherwise the prediction is computed.
\<close>

definition GetPrediction ::
  "'w collaborators \<Rightarrow> string \<Rightarrow> 'w servicer_state
     \<Rightarrow> (py_exception + GetPredictionResponse) \<times> 'w servicer_state" where
  "GetPrediction env mid s =
     (let cached = cache_get (cache s) mid;
          s0 = s\<lparr>trace := trace s @ [EvCacheGet mid]\<rparr>
      in case cached of
           None \<Rightarrow> compute_prediction env mid s0
         | Some (ts, home, draw, away) \<Rightarrow>
             if time_time env (world s0) - ts < 10
             then (case call_GetMatch env mid s0 of
                     (Inl e, s1) \<Rightarrow> (Inl e, s1)
                   | (Inr m, s1) \<Rightarrow>
                       (Inr \<lparr>home_win_prob = home, draw_prob = draw, away_win_prob = away,
                              match_id = mid, match_msg = m\<rparr>, s1))
             else compute_prediction env mid s0)"

text \<open>
  \<^verbatim>\<open>GetPrediction\<close> as the gRPC runtime calls it, with the request and a context. The
  method never touches the context: it returns its response, or the exception of a stub
  escapes from it.
\<close>

definition GetPrediction_servicer ::
  "'w collaborators \<Rightarrow> 'w servicer_state \<Rightarrow> string \<Rightarrow> servicer_context
     \<Rightarrow> py_exception + (GetPredictionResponse \<times> servicer_context)" where
  "GetPrediction_servicer env s request context =
     (case fst (GetPrediction env request s) of
        Inl e \<Rightarrow> Inl e
      | Inr response \<Rightarrow> Inr (response, context))"

text \<open>
  The status code a client reads from a failed call, \<^verbatim>\<open>exc.code()\<close> of the
  \<^verbatim>\<open>grpc.RpcError\<close> its stub raised, as \<^verbatim>\<open>gateway.predict\<close> does.
\<close>

definition exc_code :: "py_exception + 'a \<Rightarrow> status_code option" where
  "exc_code outcome =
     (case outcome of Inl (RpcError c d) \<Rightarrow> Some c | Inl OverflowError \<Rightarrow> None | Inr r \<Rightarrow> None)"

subsection \<open>StreamPrediction\<close>

text \<open>
  \<^verbatim>\<open>StreamPrediction\<close> is a generator. Its state is where it stands: not started,
  suspended at the \<^verbatim>\<open>yield\<close>, or finished. One \<^verbatim>\<open>next\<close> runs it to the following
  \<^verbatim>\<open>yield\<close>: when resumed it first sleeps 5 seconds (\<open>resume\<close>), then computes. The
  \<^verbatim>\<open>try\<close> encloses the whole loop, so a \<^verbatim>\<open>grpc.RpcError\<close> raised by the
  computation is caught outside the loop and the generator returns; any other exception
  leaves the generator.
\<close>

datatype gen_state = GenCreated | GenSuspended | GenFinished

datatype 'a gen_result = Yield 'a | StopIteration | Raise py_exception

definition resume :: "'w collaborators \<Rightarrow> gen_state \<Rightarrow> 'w servicer_state \<Rightarrow> 'w servicer_state" where
  "resume env g s =
     (if g = GenSuspended
      then s\<lparr>world := time_sleep env 5 (world s), trace := trace s @ [EvSleep 5]\<rparr>
      else s)"

definition StreamPrediction_next ::
  "'w collaborators \<Rightarrow> string \<Rightarrow> gen_state \<times> 'w servicer_state
     \<Rightarrow> GetPredictionResponse gen_result \<times> gen_state \<times> 'w servicer_state" where
  "StreamPrediction_next env mid gs =
     (case gs of
        (GenFinished, s) \<Rightarrow> (StopIteration, GenFinished, s)
      | (g, s) \<Rightarrow>
          (case compute_prediction env mid (resume env g s) of
             (Inr r, s2) \<Rightarrow> (Yield r, GenSuspended, s2)
           | (Inl (RpcError c d), s2) \<Rightarrow> (StopIteration, GenFinished, s2)
           | (Inl e, s2) \<Rightarrow> (Raise e, GenFinished, s2)))"

text \<open>
  The subscriber takes up to \<open>n\<close> results and then cancels; it also stops when the
  generator ends.
\<close>

fun StreamPrediction_take ::
  "'w collaborators \<Rightarrow> string \<Rightarrow> nat \<Rightarrow> gen_state \<times> 'w servicer_state
     \<Rightarrow> GetPredictionResponse list \<times> gen_state \<times> 'w servicer_state" where
  "StreamPrediction_take env mid 0 gs = ([], gs)"
| "StreamPrediction_take env mid (Suc n) gs =
     (case StreamPrediction_next env mid gs of
        (Yield r, gs') \<Rightarrow>
          (case StreamPrediction_take env mid n gs' of (rs, gs'') \<Rightarrow> (r # rs, gs''))
      | (_, gs') \<Rightarrow> ([], gs'))"

text \<open>The trace of one computation that succeeds, and of \<open>n\<close> ticks of a stream.\<close>

definition tick_trace :: "string \<Rightarrow> event list" where
  "tick_trace mid = [EvGetMatch mid, EvBuildMatchFeatures mid, EvPredictMatchOutcome, EvCacheSet mid]"



subsection \<open>The spec's get\_if\_fresh\<close>

text \<open>
  The spec names one cache read, \<^verbatim>\<open>get_if_fresh(match_id, max_age)\<close>. The source has
  \<^verbatim>\<open>get\<close> and, in \<^verbatim>\<open>GetPrediction\<close>, the comparison of the age with the
  constant 10. This definition follows the spec's words over the source's \<^verbatim>\<open>get\<close>,
  to be compared with \<^verbatim>\<open>GetPrediction\<close>.
\<close>

definition get_if_fresh ::
  "cache_data \<Rightarrow> string \<Rightarrow> real \<Rightarrow> real \<Rightarrow> (real \<times> real \<times> real) option" where
  "get_if_fresh data mid now max_age =
     (case cache_get data mid of
        None \<Rightarrow> None
      | Some (computed_at, home, draw, away) \<Rightarrow>
          if now - computed_at < max_age then Some (home, draw, away) else None)"

section \<open>Example collaborators\<close>

text \<open>
  The demo match that \<^verbatim>\<open>match_service.serve\<close> adds to its repository, and
  collaborators built on it: the match stub is a client of \<^verbatim>\<open>GetMatch\<close> over that
  repository and the model stub a client of \<^verbatim>\<open>PredictMatchOutcome\<close>. The world is
  the clock.
\<close>

definition demo_match :: Match where
  "demo_match = \<lparr>match_ident = ''1'', home_team_id = ''ARG'', away_team_id = ''FRA'',
     kick_off_utc = ''2022-12-18T15:00:00Z'', stage = ''Final''\<rparr>"

definition demo_repo :: MatchRepository where
  "demo_repo = [''1'' \<mapsto> demo_match]"

definition demo_env :: "real collaborators" where
  "demo_env = \<lparr>
     GetMatch_stub = (\<lambda>mid w. (unary_unary (GetMatch demo_repo) mid, w)),
     BuildMatchFeatures_stub = (\<lambda>mid w. (Inr [2050, 2050, 0, 1], w)),
     PredictMatchOutcome_stub = (\<lambda>features w. (unary_unary PredictMatchOutcome features, w)),
     time_time = (\<lambda>w. w),
     time_sleep = (\<lambda>d w. w + d)\<rparr>"

text \<open>The same, with a feature builder that answers too few features.\<close>

definition short_env :: "real collaborators" where
  "short_env = demo_env\<lparr>BuildMatchFeatures_stub := (\<lambda>mid w. (Inr [2050, 2050, 0], w))\<rparr>"

text \<open>The same, with a feature builder that cannot be reached.\<close>

definition down_env :: "real collaborators" where
  "down_env = demo_env\<lparr>BuildMatchFeatures_stub :=
     (\<lambda>mid w. (Inl (RpcError UNAVAILABLE ''failed to connect to all addresses''), w))\<rparr>"

text \<open>
  A match provider that answers NOT\_FOUND on its first call and the demo match from then
  on; the world counts the calls to it.
\<close>

definition flaky_env :: "nat collaborators" where
  "flaky_env = \<lparr>
     GetMatch_stub = (\<lambda>mid w. (if w = 0 then Inl (RpcError NOT_FOUND ''Match not found'')
                                else Inr demo_match, Suc w)),
     BuildMatchFeatures_stub = (\<lambda>mid w. (Inr [2050, 2050, 0, 1], w)),
     PredictMatchOutcome_stub = (\<lambda>features w. (unary_unary PredictMatchOutcome features, w)),
     time_time = (\<lambda>w. 0),
     time_sleep = (\<lambda>d w. w)\<rparr>"

definition init_state :: "'w \<Rightarrow> 'w servicer_state" where
  "init_state w = \<lparr>world = w, cache = Map.empty, trace = []\<rparr>"

section \<open>Facts about the outcome model\<close>

lemma exp_10000_overflow: "DBL_MAX < exp (10000::real)"
proof -
  have e2: "(2::real) \<le> exp 1"
    using exp_ge_add_one_self [of "1::real"] by simp
  have "exp (10000::real) = exp (of_nat 10000 * 1)" by simp
  also have "\<dots> = exp (1::real) ^ 10000" by (rule exp_of_nat_mult)
  finally have eq: "exp (10000::real) = exp 1 ^ 10000" .
  have "(2::real) ^ 10000 \<le> exp 1 ^ 10000"
    using e2 by (rule power_mono) simp
  moreover have "DBL_MAX < (2::real) ^ 10000"
  proof -
    have "DBL_MAX < 2 * 2 ^ 1023" unfolding DBL_MAX_def by simp
    also have "\<dots> = (2::real) ^ 1024" by simp
    also have "\<dots> \<le> 2 ^ 10000" by (rule power_increasing) simp_all
    finally show ?thesis .
  qed
  ultimately show ?thesis using eq by linarith
qed

lemma math_exp_0: "math_exp 0 = Inr 1"
  by (simp add: math_exp_def DBL_MAX_def)

lemma sigmoid_0: "sigmoid 0 = Inr (1 / 2)"
  by (simp add: sigmoid_def math_exp_0)

lemma model_base_0: "model_base 0 k = 0"
  by (simp add: model_base_def)

lemma sigmoid_cases:
  "sigmoid x = Inl OverflowError \<and> DBL_MAX < exp (- x) \<or>
   (\<exists>h. sigmoid x = Inr h \<and> 0 < h \<and> h < 1 \<and> exp (- x) \<le> DBL_MAX)"
proof (cases "DBL_MAX < exp (- x)")
  case True
  then show ?thesis by (simp add: sigmoid_def math_exp_def)
next
  case False
  have p: "0 < 1 + exp (- x)" by (rule add_pos_pos) simp_all
  have q: "1 < 1 + exp (- x)" by simp
  have "0 < 1 / (1 + exp (- x))" using p by simp
  moreover have "1 / (1 + exp (- x)) < 1" using p q by (simp only: divide_less_eq_1_pos)
  ultimately show ?thesis using False by (simp add: sigmoid_def math_exp_def)
qed

lemma sigmoid_Inr_bounds: "sigmoid x = Inr h \<Longrightarrow> 0 < h \<and> h < 1"
  using sigmoid_cases [of x] by auto

lemma normalize_probs_sum:
  assumes "0 \<le> h" "0 \<le> d" "0 \<le> a" "0 < h + d + a"
  shows "home_win_prob (normalize_probs h d a) + draw_prob (normalize_probs h d a)
           + away_win_prob (normalize_probs h d a) = 1"
proof -
  have "h / (h + d + a) + d / (h + d + a) + a / (h + d + a) = (h + d + a) / (h + d + a)"
    by (simp only: add_divide_distrib)
  also have "\<dots> = 1" using assms(4) by simp
  finally show ?thesis using assms(4) by (simp add: normalize_probs_def Let_def)
qed

lemma normalize_probs_bounds:
  assumes "0 \<le> h" "0 \<le> d" "0 \<le> a" "0 < h + d + a"
  shows "0 \<le> home_win_prob (normalize_probs h d a) \<and> home_win_prob (normalize_probs h d a) \<le> 1
       \<and> 0 \<le> draw_prob (normalize_probs h d a) \<and> draw_prob (normalize_probs h d a) \<le> 1
       \<and> 0 \<le> away_win_prob (normalize_probs h d a) \<and> away_win_prob (normalize_probs h d a) \<le> 1"
  using assms by (simp add: normalize_probs_def Let_def divide_le_eq)

lemma normalize_probs_degenerate:
  "h + d + a \<le> 0 \<Longrightarrow>
     normalize_probs h d a = \<lparr>home_win_prob = 1 / 3, draw_prob = 1 / 3, away_win_prob = 1 / 3\<rparr>"
  by (simp add: normalize_probs_def Let_def)

lemma PredictMatchOutcome_Inr:
  assumes "4 \<le> length features" and "PredictMatchOutcome features context = Inr (r, context')"
  shows "\<exists>h. sigmoid (model_base (features ! 2) (features ! 3)) = Inr h \<and> context' = context \<and>
     r = normalize_probs h (max (15 / 100) (35 / 100 - \<bar>features ! 2\<bar> / 1000))
           (max 0 (1 - h - max (15 / 100) (35 / 100 - \<bar>features ! 2\<bar> / 1000)))"
  using assms by (auto simp: PredictMatchOutcome_def Let_def split: sum.splits)

lemma PredictMatchOutcome_even:
  assumes "4 \<le> length features" and "features ! 2 = 0"
  shows "PredictMatchOutcome features context =
     Inr (\<lparr>home_win_prob = 1 / 2, draw_prob = 7 / 20, away_win_prob = 3 / 20\<rparr>, context)"
  using assms
  by (simp add: PredictMatchOutcome_def model_base_0 sigmoid_0 normalize_probs_def Let_def)

text \<open>
  The length check is the only source of INVALID\_ARGUMENT, and a vector of four or more
  features gives a triple whenever \<^verbatim>\<open>math.exp\<close> stays in range.
\<close>

lemma PredictMatchOutcome_short:
  "length features < 4 \<Longrightarrow>
     PredictMatchOutcome features fresh_context =
       Inr (empty_PredictMatchOutcomeResponse,
            \<lparr>code = INVALID_ARGUMENT, details = ''expected at least 4 features''\<rparr>)"
  by (simp add: PredictMatchOutcome_def set_code_def set_details_def fresh_context_def)

lemma PredictMatchOutcome_invalid_argument_iff:
  "(\<exists>r c. PredictMatchOutcome features fresh_context = Inr (r, c) \<and> code c = INVALID_ARGUMENT)
     \<longleftrightarrow> length features < 4"
proof
  assume "\<exists>r c. PredictMatchOutcome features fresh_context = Inr (r, c) \<and> code c = INVALID_ARGUMENT"
  then obtain r c where rc: "PredictMatchOutcome features fresh_context = Inr (r, c)"
    and c: "code c = INVALID_ARGUMENT" by blast
  show "length features < 4"
  proof (rule ccontr)
    assume "\<not> length features < 4"
    then have "4 \<le> length features" by simp
    from PredictMatchOutcome_Inr [OF this rc] have "c = fresh_context" by blast
    with c show False by (simp add: fresh_context_def)
  qed
next
  assume "length features < 4"
  then show "\<exists>r c. PredictMatchOutcome features fresh_context = Inr (r, c) \<and> code c = INVALID_ARGUMENT"
    by (simp add: PredictMatchOutcome_short)
qed

lemma PredictMatchOutcome_in_range:
  assumes "4 \<le> length features"
    and "exp (- model_base (features ! 2) (features ! 3)) \<le> DBL_MAX"
  shows "\<exists>r. PredictMatchOutcome features context = Inr (r, context)"
  using assms by (simp add: PredictMatchOutcome_def sigmoid_def math_exp_def Let_def)

text \<open>
  On finite features the triple is a probability distribution: for a vector of at least
  four real features, the triple the model returns has every component between 0 and 1 and
  sums to 1 (so also within 1e-6 of 1); and the normalisation answers one third each when
  the sum before it is not positive.
\<close>

lemma PredictMatchOutcome_probabilities:
  assumes "4 \<le> length features" and "PredictMatchOutcome features context = Inr (r, context')"
  shows "0 \<le> home_win_prob r \<and> home_win_prob r \<le> 1 \<and> 0 \<le> draw_prob r \<and> draw_prob r \<le> 1 \<and>
         0 \<le> away_win_prob r \<and> away_win_prob r \<le> 1 \<and>
         home_win_prob r + draw_prob r + away_win_prob r = 1 \<and>
         \<bar>home_win_prob r + draw_prob r + away_win_prob r - 1\<bar> \<le> 1 / 10 ^ 6 \<and>
         (h + d + a \<le> 0 \<longrightarrow>
            normalize_probs h d a = \<lparr>home_win_prob = 1 / 3, draw_prob = 1 / 3, away_win_prob = 1 / 3\<rparr>)"
proof -
  define dr where "dr = max (15 / 100) (35 / 100 - \<bar>features ! 2\<bar> / 1000)"
  from PredictMatchOutcome_Inr [OF assms] obtain hw where
    hw: "sigmoid (model_base (features ! 2) (features ! 3)) = Inr hw" and
    r: "r = normalize_probs hw dr (max 0 (1 - hw - dr))"
    unfolding dr_def by blast
  have b: "0 < hw" "hw < 1" using sigmoid_Inr_bounds [OF hw] by simp_all
  have d0: "0 \<le> dr" unfolding dr_def by simp
  have a0: "0 \<le> max 0 (1 - hw - dr)" by simp
  have t: "0 < hw + dr + max 0 (1 - hw - dr)" using b d0 a0 by linarith
  have h0: "0 \<le> hw" using b by simp
  note S = normalize_probs_sum [OF h0 d0 a0 t]
  note B = normalize_probs_bounds [OF h0 d0 a0 t]
  show ?thesis using S B by (simp add: r normalize_probs_degenerate)
qed

lemma PredictMatchOutcome_probabilities_at_input:
  "4 \<le> length [2100, 2050, 0, 1 :: real] \<and>
   PredictMatchOutcome [2100, 2050, 0, 1] fresh_context =
     Inr (\<lparr>home_win_prob = 1 / 2, draw_prob = 7 / 20, away_win_prob = 3 / 20\<rparr>, fresh_context) \<and>
   (0::real) + 0 + 0 \<le> 0 \<and>
   (1 / 2 :: real) + 7 / 20 + 3 / 20 = 1 \<and>
   normalize_probs 0 0 0 = \<lparr>home_win_prob = 1 / 3, draw_prob = 1 / 3, away_win_prob = 1 / 3\<rparr>"
proof -
  have l: "4 \<le> length [2100, 2050, 0, 1 :: real]" by simp
  have e: "PredictMatchOutcome [2100, 2050, 0, 1] fresh_context =
     Inr (\<lparr>home_win_prob = 1 / 2, draw_prob = 7 / 20, away_win_prob = 3 / 20\<rparr>, fresh_context)"
    by (rule PredictMatchOutcome_even) simp_all
  show ?thesis
    using PredictMatchOutcome_probabilities [OF l e, of 0 0 0] l e by simp
qed

text \<open>
  C5, as stated, fails: with all of the first three features equal (to 0, so that
  elo\_diff is 0) and no knockout, the draw is at its ceiling 0.35 but the home win is 0.5
  and the away win 0.15, which are 0.35 apart.
\<close>

theorem PredictMatchOutcome_even_counterexample:
  "PredictMatchOutcome [0, 0, 0, 0] fresh_context =
     Inr (\<lparr>home_win_prob = 1 / 2, draw_prob = 7 / 20, away_win_prob = 3 / 20\<rparr>, fresh_context) \<and>
   \<not> \<bar>(1 / 2 :: real) - 3 / 20\<bar> \<le> 1 / 10"
  by (simp add: PredictMatchOutcome_def model_base_0 sigmoid_0 normalize_probs_def Let_def)

text \<open>
  C5, amended. For every vector of at least four features whose elo\_diff (the third
  feature) is 0, whatever the other features, the model returns exactly home win 0.5,
  draw 0.35 (the ceiling) and away win 0.15.
\<close>

theorem PredictMatchOutcome_elo_diff_zero:
  assumes "4 \<le> length features" and "features ! 2 = 0"
  shows "PredictMatchOutcome features context =
           Inr (\<lparr>home_win_prob = 1 / 2, draw_prob = 35 / 100, away_win_prob = 15 / 100\<rparr>, context)"
  using assms
  by (simp add: PredictMatchOutcome_def model_base_0 sigmoid_0 normalize_probs_def Let_def)

theorem PredictMatchOutcome_elo_diff_zero_witness:
  "4 \<le> length [1500, 1500, 0, 0 :: real] \<and> [1500, 1500, 0, 0 :: real] ! 2 = 0 \<and>
   PredictMatchOutcome [1500, 1500, 0, 0] fresh_context =
     Inr (\<lparr>home_win_prob = 1 / 2, draw_prob = 35 / 100, away_win_prob = 15 / 100\<rparr>, fresh_context)"
  using PredictMatchOutcome_elo_diff_zero [of "[1500, 1500, 0, 0]" fresh_context] by simp

text \<open>
  C8. A vector of four features with elo\_diff = -3000000 makes \<^verbatim>\<open>_sigmoid\<close> call
  \<^verbatim>\<open>math.exp(10000.0)\<close>, which raises OverflowError: no triple is returned.
\<close>

theorem PredictMatchOutcome_overflow:
  "PredictMatchOutcome [0, 0, - 3000000, 0] fresh_context = Inl OverflowError"
  using exp_10000_overflow
  by (simp add: PredictMatchOutcome_def model_base_def sigmoid_def math_exp_def Let_def)

text \<open>
  C10. The model is a function of its request, and two requests that agree on their first
  four features get the same answer, whatever follows.
\<close>

theorem PredictMatchOutcome_first_four:
  assumes "take 4 fs = take 4 gs"
  shows "PredictMatchOutcome fs context = PredictMatchOutcome gs context"
proof (cases "length fs < 4")
  case True
  then have "fs = take 4 fs" by simp
  with assms have fg: "fs = take 4 gs" by simp
  have "length gs < 4"
  proof (rule ccontr)
    assume "\<not> length gs < 4"
    then have "length (take 4 gs) = 4" by simp
    with fg True show False by simp
  qed
  then have "gs = take 4 gs" by simp
  with fg have "fs = gs" by simp
  then show ?thesis by simp
next
  case False
  then have lf: "4 \<le> length fs" by simp
  have lg: "4 \<le> length gs"
  proof (rule ccontr)
    assume "\<not> 4 \<le> length gs"
    then have "length (take 4 gs) < 4" by simp
    moreover have "length (take 4 fs) = 4" using lf by simp
    ultimately show False using assms by simp
  qed
  have n2: "fs ! 2 = gs ! 2"
  proof -
    have "fs ! 2 = take 4 fs ! 2" by simp
    also have "\<dots> = take 4 gs ! 2" by (simp only: assms)
    also have "\<dots> = gs ! 2" by simp
    finally show ?thesis .
  qed
  have n3: "fs ! 3 = gs ! 3"
  proof -
    have "fs ! 3 = take 4 fs ! 3" by simp
    also have "\<dots> = take 4 gs ! 3" by (simp only: assms)
    also have "\<dots> = gs ! 3" by simp
    finally show ?thesis .
  qed
  show ?thesis using lf lg by (simp add: PredictMatchOutcome_def n2 n3)
qed

theorem PredictMatchOutcome_first_four_witness:
  "take 4 [1500, 1400, 0, 1, 7 :: real] = take 4 [1500, 1400, 0, 1, 9, 11] \<and>
   PredictMatchOutcome [1500, 1400, 0, 1, 7] fresh_context =
     PredictMatchOutcome [1500, 1400, 0, 1, 9, 11] fresh_context"
  using PredictMatchOutcome_first_four [of "[1500, 1400, 0, 1, 7]" "[1500, 1400, 0, 1, 9, 11]" fresh_context]
  by simp

section \<open>Facts about the cache and the single-shot path\<close>

lemma compute_prediction_match_error:
  assumes "GetMatch_stub env mid (world s) = (Inl e, w1)"
  shows "compute_prediction env mid s =
           (Inl e, s\<lparr>world := w1, trace := trace s @ [EvGetMatch mid]\<rparr>)"
  using assms by (simp add: compute_prediction_def call_GetMatch_def)

lemma compute_prediction_feature_error:
  assumes "GetMatch_stub env mid (world s) = (Inr m, w1)"
    and "BuildMatchFeatures_stub env mid w1 = (Inl e, w2)"
  shows "compute_prediction env mid s =
           (Inl e, s\<lparr>world := w2, trace := trace s @ [EvGetMatch mid, EvBuildMatchFeatures mid]\<rparr>)"
  using assms
  by (simp add: compute_prediction_def call_GetMatch_def call_BuildMatchFeatures_def)

lemma compute_prediction_model_error:
  assumes "GetMatch_stub env mid (world s) = (Inr m, w1)"
    and "BuildMatchFeatures_stub env mid w1 = (Inr features, w2)"
    and "PredictMatchOutcome_stub env features w2 = (Inl e, w3)"
  shows "compute_prediction env mid s =
           (Inl e, s\<lparr>world := w3,
                      trace := trace s @ [EvGetMatch mid, EvBuildMatchFeatures mid,
                                          EvPredictMatchOutcome]\<rparr>)"
  using assms
  by (simp add: compute_prediction_def call_GetMatch_def call_BuildMatchFeatures_def
      call_PredictMatchOutcome_def)

lemma compute_prediction_ok:
  assumes "GetMatch_stub env mid (world s) = (Inr m, w1)"
    and "BuildMatchFeatures_stub env mid w1 = (Inr features, w2)"
    and "PredictMatchOutcome_stub env features w2 = (Inr p, w3)"
  shows "compute_prediction env mid s =
           (Inr \<lparr>home_win_prob = home_win_prob p, draw_prob = draw_prob p,
                  away_win_prob = away_win_prob p, match_id = mid, match_msg = m\<rparr>,
            s\<lparr>world := w3,
              cache := cache_set (cache s) mid (time_time env w3)
                         (home_win_prob p) (draw_prob p) (away_win_prob p),
              trace := trace s @ tick_trace mid\<rparr>)"
  using assms
  by (simp add: compute_prediction_def call_GetMatch_def call_BuildMatchFeatures_def
      call_PredictMatchOutcome_def tick_trace_def Let_def)

text \<open>Every way through \<^verbatim>\<open>_compute_prediction\<close>.\<close>

lemma compute_prediction_cases:
  obtains
    (match_error) e w1 where "GetMatch_stub env mid (world s) = (Inl e, w1)"
  | (feature_error) m w1 e w2 where "GetMatch_stub env mid (world s) = (Inr m, w1)"
      "BuildMatchFeatures_stub env mid w1 = (Inl e, w2)"
  | (model_error) m w1 features w2 e w3 where "GetMatch_stub env mid (world s) = (Inr m, w1)"
      "BuildMatchFeatures_stub env mid w1 = (Inr features, w2)"
      "PredictMatchOutcome_stub env features w2 = (Inl e, w3)"
  | (ok) m w1 features w2 p w3 where "GetMatch_stub env mid (world s) = (Inr m, w1)"
      "BuildMatchFeatures_stub env mid w1 = (Inr features, w2)"
      "PredictMatchOutcome_stub env features w2 = (Inr p, w3)"
proof -
  obtain r1 w1 where g: "GetMatch_stub env mid (world s) = (r1, w1)" by fastforce
  show thesis
  proof (cases r1)
    case (Inl e)
    with g show thesis by (auto intro: match_error)
  next
    case m: (Inr m)
    obtain r2 w2 where b: "BuildMatchFeatures_stub env mid w1 = (r2, w2)" by fastforce
    show thesis
    proof (cases r2)
      case (Inl e)
      with g m b show thesis by (auto intro: feature_error)
    next
      case f: (Inr features)
      obtain r3 w3 where p: "PredictMatchOutcome_stub env features w2 = (r3, w3)" by fastforce
      show thesis
      proof (cases r3)
        case (Inl e)
        with g m b f p show thesis by (auto intro: model_error)
      next
        case (Inr q)
        with g m b f p show thesis by (auto intro: ok)
      qed
    qed
  qed
qed

lemma compute_prediction_Inl_cache:
  assumes "compute_prediction env mid s = (Inl e, s')"
  shows "cache s' = cache s"
proof (cases rule: compute_prediction_cases [of env mid s])
  case match_error
  from compute_prediction_match_error [OF match_error] assms show ?thesis by auto
next
  case feature_error
  from compute_prediction_feature_error [OF feature_error] assms show ?thesis by auto
next
  case model_error
  from compute_prediction_model_error [OF model_error] assms show ?thesis by auto
next
  case ok
  from compute_prediction_ok [OF ok] assms show ?thesis by auto
qed

lemma compute_prediction_Inr:
  assumes "compute_prediction env mid s = (Inr r, s')"
  shows "trace s' = trace s @ tick_trace mid \<and> match_id r = mid \<and>
         cache s' = cache_set (cache s) mid (time_time env (world s'))
                      (home_win_prob r) (draw_prob r) (away_win_prob r)"
proof (cases rule: compute_prediction_cases [of env mid s])
  case match_error
  from compute_prediction_match_error [OF match_error] assms show ?thesis by auto
next
  case feature_error
  from compute_prediction_feature_error [OF feature_error] assms show ?thesis by auto
next
  case model_error
  from compute_prediction_model_error [OF model_error] assms show ?thesis by auto
next
  case ok
  from compute_prediction_ok [OF ok] assms show ?thesis by auto
qed

text \<open>
  \<^verbatim>\<open>GetPrediction\<close> decides between its two paths exactly as the spec's
  \<^verbatim>\<open>get_if_fresh\<close> with a window of 10.
\<close>

lemma GetPrediction_get_if_fresh:
  "GetPrediction env mid s =
     (case get_if_fresh (cache s) mid (time_time env (world s)) 10 of
        None \<Rightarrow> compute_prediction env mid (s\<lparr>trace := trace s @ [EvCacheGet mid]\<rparr>)
      | Some (home, draw, away) \<Rightarrow>
          (case call_GetMatch env mid (s\<lparr>trace := trace s @ [EvCacheGet mid]\<rparr>) of
             (Inl e, s1) \<Rightarrow> (Inl e, s1)
           | (Inr m, s1) \<Rightarrow>
               (Inr \<lparr>home_win_prob = home, draw_prob = draw, away_win_prob = away,
                      match_id = mid, match_msg = m\<rparr>, s1)))"
  by (simp add: GetPrediction_def get_if_fresh_def Let_def split: option.splits prod.splits)

lemma GetPrediction_miss:
  assumes "get_if_fresh (cache s) mid (time_time env (world s)) 10 = None"
  shows "GetPrediction env mid s =
           compute_prediction env mid (s\<lparr>trace := trace s @ [EvCacheGet mid]\<rparr>)"
  using assms by (simp add: GetPrediction_get_if_fresh)

lemma GetPrediction_hit:
  assumes "cache_get (cache s) mid = Some (ts, h, d, a)"
    and "time_time env (world s) - ts < 10"
  shows "GetPrediction env mid s =
     (case GetMatch_stub env mid (world s) of
        (Inl e, w1) \<Rightarrow>
          (Inl e, s\<lparr>world := w1, trace := trace s @ [EvCacheGet mid, EvGetMatch mid]\<rparr>)
      | (Inr m, w1) \<Rightarrow>
          (Inr \<lparr>home_win_prob = h, draw_prob = d, away_win_prob = a,
                 match_id = mid, match_msg = m\<rparr>,
           s\<lparr>world := w1, trace := trace s @ [EvCacheGet mid, EvGetMatch mid]\<rparr>))"
  using assms
  by (simp add: GetPrediction_def call_GetMatch_def Let_def split: prod.splits sum.splits)

lemma GetPrediction_Inl_cache:
  assumes "GetPrediction env mid s = (Inl e, s')"
  shows "cache s' = cache s"
proof (cases "get_if_fresh (cache s) mid (time_time env (world s)) 10")
  case None
  with assms have "compute_prediction env mid (s\<lparr>trace := trace s @ [EvCacheGet mid]\<rparr>) = (Inl e, s')"
    by (simp add: GetPrediction_miss)
  from compute_prediction_Inl_cache [OF this] show ?thesis by simp
next
  case (Some t)
  then show ?thesis using assms
    by (auto simp: GetPrediction_get_if_fresh call_GetMatch_def split: prod.splits sum.splits)
qed

text \<open>
  A prediction that was just computed is answered again, unchanged, by a second call
  inside the window, with the match fetched anew.
\<close>

lemma GetPrediction_after_compute:
  assumes first: "compute_prediction env mid s = (Inr r, s1)"
    and fresh: "time_time env' w' - time_time env (world s1) < 10"
    and m: "GetMatch_stub env' mid w' = (Inr m', w'')"
  shows "fst (GetPrediction env' mid (s1\<lparr>world := w'\<rparr>)) =
           Inr \<lparr>home_win_prob = home_win_prob r, draw_prob = draw_prob r,
                away_win_prob = away_win_prob r, match_id = mid, match_msg = m'\<rparr>"
proof -
  from compute_prediction_Inr [OF first]
  have c: "cache_get (cache (s1\<lparr>world := w'\<rparr>)) mid =
             Some (time_time env (world s1), home_win_prob r, draw_prob r, away_win_prob r)"
    by (simp add: cache_get_def cache_set_def)
  have f: "time_time env' (world (s1\<lparr>world := w'\<rparr>)) - time_time env (world s1) < 10"
    using fresh by simp
  show ?thesis using m by (simp add: GetPrediction_hit [OF c f])
qed

text \<open>
  C1. With a cache entry younger than 10 for the match id, \<^verbatim>\<open>GetPrediction\<close> answers the
  cached probabilities with the match the Match Provider returns on this call; its only
  collaborator call is that \<^verbatim>\<open>GetMatch\<close> (no feature or model call) and the cache is
  left as it was. A further call while the entry is still younger than 10, whatever the
  collaborators have become, answers the same probabilities with the match fetched again.
\<close>

theorem GetPrediction_cache_hit:
  assumes "cache_get (cache s) mid = Some (ts, h, d, a)"
    and "time_time env (world s) - ts < 10"
    and "GetMatch_stub env mid (world s) = (Inr m, w1)"
  shows "GetPrediction env mid s =
           (Inr \<lparr>home_win_prob = h, draw_prob = d, away_win_prob = a,
                  match_id = mid, match_msg = m\<rparr>,
            s\<lparr>world := w1, trace := trace s @ [EvCacheGet mid, EvGetMatch mid]\<rparr>) \<and>
         cache (snd (GetPrediction env mid s)) = cache s \<and>
         (time_time env' w' - ts < 10 \<longrightarrow> GetMatch_stub env' mid w' = (Inr m', w'') \<longrightarrow>
            fst (GetPrediction env' mid ((snd (GetPrediction env mid s))\<lparr>world := w'\<rparr>)) =
              Inr \<lparr>home_win_prob = h, draw_prob = d, away_win_prob = a,
                   match_id = mid, match_msg = m'\<rparr>)"
proof -
  let ?s1 = "s\<lparr>world := w1, trace := trace s @ [EvCacheGet mid, EvGetMatch mid]\<rparr>"
  have one: "GetPrediction env mid s =
           (Inr \<lparr>home_win_prob = h, draw_prob = d, away_win_prob = a,
                  match_id = mid, match_msg = m\<rparr>, ?s1)"
    using assms(3) by (simp add: GetPrediction_hit [OF assms(1,2)])
  have two: "fst (GetPrediction env' mid (?s1\<lparr>world := w'\<rparr>)) =
              Inr \<lparr>home_win_prob = h, draw_prob = d, away_win_prob = a,
                   match_id = mid, match_msg = m'\<rparr>"
    if f: "time_time env' w' - ts < 10" and g: "GetMatch_stub env' mid w' = (Inr m', w'')"
  proof -
    have c: "cache_get (cache (?s1\<lparr>world := w'\<rparr>)) mid = Some (ts, h, d, a)"
      using assms(1) by simp
    have f': "time_time env' (world (?s1\<lparr>world := w'\<rparr>)) - ts < 10" using f by simp
    from GetPrediction_hit [OF c f'] g show ?thesis by simp
  qed
  show ?thesis using two by (simp add: one)
qed

text \<open>
  Inside the servicer: when the Match Provider is \<^verbatim>\<open>GetMatch\<close> over a repository that
  does not know the id, the exception that leaves \<^verbatim>\<open>GetPrediction\<close> is the provider's
  NOT\_FOUND error; the only collaborator call was that \<^verbatim>\<open>GetMatch\<close>, and the cache
  is unchanged, so an id without an entry still has none.
\<close>

lemma GetPrediction_not_found:
  assumes "get_match repo mid = None"
    and "GetMatch_stub env mid (world s) = (unary_unary (GetMatch repo) mid, w1)"
  shows "GetPrediction env mid s =
           (Inl (RpcError NOT_FOUND ''Match not found''),
            s\<lparr>world := w1, trace := trace s @ [EvCacheGet mid, EvGetMatch mid]\<rparr>) \<and>
         cache (snd (GetPrediction env mid s)) = cache s \<and>
         (cache s mid = None \<longrightarrow> cache (snd (GetPrediction env mid s)) mid = None)"
proof -
  have nf: "unary_unary (GetMatch repo) mid = Inl (RpcError NOT_FOUND ''Match not found'')"
    using assms(1)
    by (simp add: unary_unary_def GetMatch_def set_code_def set_details_def fresh_context_def)
  have g: "GetMatch_stub env mid (world s) = (Inl (RpcError NOT_FOUND ''Match not found''), w1)"
    using assms(2) nf by simp
  have "GetPrediction env mid s =
           (Inl (RpcError NOT_FOUND ''Match not found''),
            s\<lparr>world := w1, trace := trace s @ [EvCacheGet mid, EvGetMatch mid]\<rparr>)"
  proof (cases "get_if_fresh (cache s) mid (time_time env (world s)) 10")
    case None
    have g': "GetMatch_stub env mid (world (s\<lparr>trace := trace s @ [EvCacheGet mid]\<rparr>)) =
                (Inl (RpcError NOT_FOUND ''Match not found''), w1)"
      using g by simp
    show ?thesis
      by (simp add: GetPrediction_miss [OF None] compute_prediction_match_error [OF g'])
  next
    case (Some t)
    then show ?thesis using g
      by (simp add: GetPrediction_get_if_fresh call_GetMatch_def split: prod.splits)
  qed
  then show ?thesis by simp
qed

text \<open>
  Inside the servicer: on the computing path, an error raised by the Feature Builder, or
  by the Outcome Model, is the exception that leaves \<^verbatim>\<open>GetPrediction\<close>, and no cache
  write follows; whenever an exception leaves \<^verbatim>\<open>GetPrediction\<close>, the cache is as
  before the call.
\<close>

lemma GetPrediction_collaborator_error:
  assumes "get_if_fresh (cache s) mid (time_time env (world s)) 10 = None"
    and "GetMatch_stub env mid (world s) = (Inr m, w1)"
  shows "(BuildMatchFeatures_stub env mid w1 = (Inl e, w2) \<longrightarrow>
            GetPrediction env mid s =
              (Inl e, s\<lparr>world := w2,
                         trace := trace s @ [EvCacheGet mid, EvGetMatch mid,
                                             EvBuildMatchFeatures mid]\<rparr>)) \<and>
         (BuildMatchFeatures_stub env mid w1 = (Inr features, w2) \<longrightarrow>
          PredictMatchOutcome_stub env features w2 = (Inl e, w3) \<longrightarrow>
            GetPrediction env mid s =
              (Inl e, s\<lparr>world := w3,
                         trace := trace s @ [EvCacheGet mid, EvGetMatch mid,
                                             EvBuildMatchFeatures mid, EvPredictMatchOutcome]\<rparr>)) \<and>
         (GetPrediction env mid s = (Inl e', s') \<longrightarrow> cache s' = cache s)"
proof -
  let ?s0 = "s\<lparr>trace := trace s @ [EvCacheGet mid]\<rparr>"
  have g: "GetMatch_stub env mid (world ?s0) = (Inr m, w1)" using assms(2) by simp
  have a: "GetPrediction env mid s =
              (Inl e, s\<lparr>world := w2,
                         trace := trace s @ [EvCacheGet mid, EvGetMatch mid,
                                             EvBuildMatchFeatures mid]\<rparr>)"
    if b: "BuildMatchFeatures_stub env mid w1 = (Inl e, w2)"
    by (simp add: GetPrediction_miss [OF assms(1)] compute_prediction_feature_error [OF g b])
  have b: "GetPrediction env mid s =
              (Inl e, s\<lparr>world := w3,
                         trace := trace s @ [EvCacheGet mid, EvGetMatch mid,
                                             EvBuildMatchFeatures mid, EvPredictMatchOutcome]\<rparr>)"
    if b: "BuildMatchFeatures_stub env mid w1 = (Inr features, w2)"
      and p: "PredictMatchOutcome_stub env features w2 = (Inl e, w3)"
    by (simp add: GetPrediction_miss [OF assms(1)] compute_prediction_model_error [OF g b p])
  have c: "cache s' = cache s" if "GetPrediction env mid s = (Inl e', s')"
    using that by (rule GetPrediction_Inl_cache)
  show ?thesis using a b c by blast
qed

text \<open>
  C9. \<^verbatim>\<open>set\<close> overwrites whatever the id had and touches no other id; a read whose
  window covers the age answers exactly the written triple; a read whose window does not,
  or of an id never written, is a miss; and \<^verbatim>\<open>GetPrediction\<close>, when its read is a hit,
  leaves the cache as it was.
\<close>

theorem cache_write_then_read:
  "cache_get (cache_set data mid T h d a) mid = Some (T, h, d, a) \<and>
   (mid' \<noteq> mid \<longrightarrow> cache_get (cache_set data mid T h d a) mid' = cache_get data mid') \<and>
   (now - T < max_age \<longrightarrow>
      get_if_fresh (cache_set data mid T h d a) mid now max_age = Some (h, d, a)) \<and>
   (max_age \<le> now - T \<longrightarrow>
      get_if_fresh (cache_set data mid T h d a) mid now max_age = None) \<and>
   (cache_get data mid = None \<longrightarrow> get_if_fresh data mid now max_age = None) \<and>
   (get_if_fresh (cache s) mid (time_time env (world s)) 10 \<noteq> None \<longrightarrow>
      cache (snd (GetPrediction env mid s)) = cache s)"
proof -
  have "cache (snd (GetPrediction env mid s)) = cache s"
    if "get_if_fresh (cache s) mid (time_time env (world s)) 10 \<noteq> None"
    using that
    by (auto simp: GetPrediction_get_if_fresh call_GetMatch_def split: prod.splits sum.splits)
  then show ?thesis
    by (simp add: cache_get_def cache_set_def get_if_fresh_def)
qed

section \<open>The example collaborators at work\<close>

lemma demo_GetMatch: "unary_unary (GetMatch demo_repo) ''1'' = Inr demo_match"
  by (simp add: unary_unary_def GetMatch_def get_match_def demo_repo_def fresh_context_def)

lemma demo_GetMatch_unknown:
  "unary_unary (GetMatch demo_repo) ''X'' = Inl (RpcError NOT_FOUND ''Match not found'')"
  by (simp add: unary_unary_def GetMatch_def get_match_def demo_repo_def fresh_context_def
      set_code_def set_details_def)

lemma demo_PredictMatchOutcome:
  "unary_unary PredictMatchOutcome [2050, 2050, 0, 1] =
     Inr \<lparr>home_win_prob = 1 / 2, draw_prob = 7 / 20, away_win_prob = 3 / 20\<rparr>"
  by (simp add: unary_unary_def PredictMatchOutcome_even fresh_context_def)

lemma short_PredictMatchOutcome:
  "unary_unary PredictMatchOutcome [2050, 2050, 0] =
     Inl (RpcError INVALID_ARGUMENT ''expected at least 4 features'')"
  by (simp add: unary_unary_def PredictMatchOutcome_short)


section \<open>Facts about the stream\<close>

lemma resume_cache: "cache (resume env g s) = cache s"
  by (simp add: resume_def)


lemma StreamPrediction_next_finished:
  "StreamPrediction_next env mid (GenFinished, s) = (StopIteration, GenFinished, s)"
  by (simp add: StreamPrediction_next_def)


lemma StreamPrediction_next_rpc_error:
  assumes "g \<noteq> GenFinished"
    and "compute_prediction env mid (resume env g s) = (Inl (RpcError c d), s')"
  shows "StreamPrediction_next env mid (g, s) = (StopIteration, GenFinished, s')"
  using assms by (cases g) (simp_all add: StreamPrediction_next_def)





text \<open>
  C4, as stated, fails. The match provider answers NOT\_FOUND on the first tick only. The
  first \<^verbatim>\<open>next\<close> yields nothing and ends the generator; asking again gives
  nothing more and calls nobody, although a computation in that state would succeed.
\<close>

theorem StreamPrediction_failure_counterexample:
  "StreamPrediction_next flaky_env ''1'' (GenCreated, init_state 0) =
     (StopIteration, GenFinished, \<lparr>world = 1, cache = Map.empty, trace = [EvGetMatch ''1'']\<rparr>) \<and>
   StreamPrediction_next flaky_env ''1''
       (GenFinished, \<lparr>world = 1, cache = Map.empty, trace = [EvGetMatch ''1'']\<rparr>) =
     (StopIteration, GenFinished, \<lparr>world = 1, cache = Map.empty, trace = [EvGetMatch ''1'']\<rparr>) \<and>
   StreamPrediction_take flaky_env ''1'' 3 (GenCreated, init_state 0) =
     ([], GenFinished, \<lparr>world = 1, cache = Map.empty, trace = [EvGetMatch ''1'']\<rparr>) \<and>
   fst (compute_prediction flaky_env ''1''
          \<lparr>world = 1, cache = Map.empty, trace = [EvGetMatch ''1'']\<rparr>) =
     Inr \<lparr>home_win_prob = 1 / 2, draw_prob = 7 / 20, away_win_prob = 3 / 20,
          match_id = ''1'', match_msg = demo_match\<rparr>"
proof -
  let ?s1 = "\<lparr>world = 1::nat, cache = Map.empty, trace = [EvGetMatch ''1'']\<rparr>"
  have c0: "compute_prediction flaky_env ''1'' (resume flaky_env GenCreated (init_state 0)) =
              (Inl (RpcError NOT_FOUND ''Match not found''), ?s1)"
    by (simp add: compute_prediction_def call_GetMatch_def flaky_env_def resume_def
        init_state_def)
  have n0: "StreamPrediction_next flaky_env ''1'' (GenCreated, init_state 0) =
              (StopIteration, GenFinished, ?s1)"
    by (rule StreamPrediction_next_rpc_error [OF _ c0]) simp
  have t: "StreamPrediction_take flaky_env ''1'' 3 (GenCreated, init_state 0) =
             ([], GenFinished, ?s1)"
    by (simp add: numeral_3_eq_3 n0)
  have g: "GetMatch_stub flaky_env ''1'' (world ?s1) = (Inr demo_match, 2)"
    by (simp add: flaky_env_def)
  have b: "BuildMatchFeatures_stub flaky_env ''1'' 2 = (Inr [2050, 2050, 0, 1], 2)"
    by (simp add: flaky_env_def)
  have p: "PredictMatchOutcome_stub flaky_env [2050, 2050, 0, 1] 2 =
             (Inr \<lparr>home_win_prob = 1 / 2, draw_prob = 7 / 20, away_win_prob = 3 / 20\<rparr>, 2)"
    by (simp add: flaky_env_def demo_PredictMatchOutcome)
  have c1: "fst (compute_prediction flaky_env ''1'' ?s1) =
     Inr \<lparr>home_win_prob = 1 / 2, draw_prob = 7 / 20, away_win_prob = 3 / 20,
          match_id = ''1'', match_msg = demo_match\<rparr>"
    by (simp only: compute_prediction_ok [OF g b p]) simp
  show ?thesis
    using c1 by (simp add: n0 t StreamPrediction_next_finished)
qed

text \<open>
  C4, amended. A collaborator's \<^verbatim>\<open>grpc.RpcError\<close> (NOT\_FOUND included) during one tick
  gives no result for that tick and no cache write; the error is caught inside
  \<^verbatim>\<open>StreamPrediction\<close>, not raised to the subscriber, and the generator is finished:
  every later \<^verbatim>\<open>next\<close> stops at once with the state untouched, so no further tick runs.
\<close>

theorem StreamPrediction_collaborator_failure:
  assumes "g \<noteq> GenFinished"
    and "compute_prediction env mid (resume env g s) = (Inl (RpcError c d), s')"
  shows "StreamPrediction_next env mid (g, s) = (StopIteration, GenFinished, s') \<and>
         cache s' = cache s \<and>
         StreamPrediction_next env mid (GenFinished, s') = (StopIteration, GenFinished, s') \<and>
         StreamPrediction_take env mid (Suc n) (g, s) = ([], GenFinished, s')"
proof -
  have n0: "StreamPrediction_next env mid (g, s) = (StopIteration, GenFinished, s')"
    by (rule StreamPrediction_next_rpc_error [OF assms])
  have "cache s' = cache (resume env g s)"
    by (rule compute_prediction_Inl_cache [OF assms(2)])
  then have c: "cache s' = cache s" by (simp add: resume_cache)
  show ?thesis by (simp add: n0 c StreamPrediction_next_finished)
qed

theorem StreamPrediction_collaborator_failure_witness:
  "GenCreated \<noteq> GenFinished \<and>
   compute_prediction demo_env ''X'' (resume demo_env GenCreated (init_state 0)) =
     (Inl (RpcError NOT_FOUND ''Match not found''),
      \<lparr>world = 0, cache = Map.empty, trace = [EvGetMatch ''X'']\<rparr>) \<and>
   StreamPrediction_next demo_env ''X'' (GenCreated, init_state 0) =
     (StopIteration, GenFinished, \<lparr>world = 0, cache = Map.empty, trace = [EvGetMatch ''X'']\<rparr>) \<and>
   StreamPrediction_take demo_env ''X'' (Suc 4) (GenCreated, init_state 0) =
     ([], GenFinished, \<lparr>world = 0, cache = Map.empty, trace = [EvGetMatch ''X'']\<rparr>)"
proof -
  have g: "GenCreated \<noteq> GenFinished" by simp
  have c: "compute_prediction demo_env ''X'' (resume demo_env GenCreated (init_state 0)) =
     (Inl (RpcError NOT_FOUND ''Match not found''),
      \<lparr>world = 0, cache = Map.empty, trace = [EvGetMatch ''X'']\<rparr>)"
    by (simp add: compute_prediction_def call_GetMatch_def demo_env_def resume_def
        init_state_def demo_GetMatch_unknown)
  show ?thesis
    using StreamPrediction_collaborator_failure [OF g c, of 4] c by simp
qed

section \<open>The theorems at concrete inputs\<close>

theorem GetPrediction_cache_hit_witness:
  "cache_get [''1'' \<mapsto> (100, 1 / 2, 1 / 5, 3 / 10)] ''1'' = Some (100, 1 / 2, 1 / 5, 3 / 10) \<and>
   (105::real) - 100 < 10 \<and>
   GetPrediction demo_env ''1''
       \<lparr>world = 105, cache = [''1'' \<mapsto> (100, 1 / 2, 1 / 5, 3 / 10)], trace = []\<rparr> =
     (Inr \<lparr>home_win_prob = 1 / 2, draw_prob = 1 / 5, away_win_prob = 3 / 10,
            match_id = ''1'', match_msg = demo_match\<rparr>,
      \<lparr>world = 105, cache = [''1'' \<mapsto> (100, 1 / 2, 1 / 5, 3 / 10)],
        trace = [EvCacheGet ''1'', EvGetMatch ''1'']\<rparr>) \<and>
   fst (GetPrediction demo_env ''1''
          \<lparr>world = 108, cache = [''1'' \<mapsto> (100, 1 / 2, 1 / 5, 3 / 10)],
            trace = [EvCacheGet ''1'', EvGetMatch ''1'']\<rparr>) =
     Inr \<lparr>home_win_prob = 1 / 2, draw_prob = 1 / 5, away_win_prob = 3 / 10,
          match_id = ''1'', match_msg = demo_match\<rparr>"
proof -
  let ?s = "\<lparr>world = 105::real, cache = [''1'' \<mapsto> (100, 1 / 2, 1 / 5, 3 / 10)], trace = []\<rparr>"
  have c: "cache_get (cache ?s) ''1'' = Some (100, 1 / 2, 1 / 5, 3 / 10)"
    by (simp add: cache_get_def)
  have f: "time_time demo_env (world ?s) - 100 < 10" by (simp add: demo_env_def)
  have g: "GetMatch_stub demo_env ''1'' (world ?s) = (Inr demo_match, 105)"
    by (simp add: demo_env_def demo_GetMatch)
  have f2: "time_time demo_env 108 - 100 < 10" by (simp add: demo_env_def)
  have g2: "GetMatch_stub demo_env ''1'' 108 = (Inr demo_match, 108)"
    by (simp add: demo_env_def demo_GetMatch)
  note T = GetPrediction_cache_hit [OF c f g, of demo_env 108 demo_match 108]
  have one: "GetPrediction demo_env ''1'' ?s =
     (Inr \<lparr>home_win_prob = 1 / 2, draw_prob = 1 / 5, away_win_prob = 3 / 10,
            match_id = ''1'', match_msg = demo_match\<rparr>,
      \<lparr>world = 105, cache = [''1'' \<mapsto> (100, 1 / 2, 1 / 5, 3 / 10)],
        trace = [EvCacheGet ''1'', EvGetMatch ''1'']\<rparr>)"
    using T by simp
  have two: "fst (GetPrediction demo_env ''1'' ((snd (GetPrediction demo_env ''1'' ?s))\<lparr>world := 108\<rparr>)) =
     Inr \<lparr>home_win_prob = 1 / 2, draw_prob = 1 / 5, away_win_prob = 3 / 10,
          match_id = ''1'', match_msg = demo_match\<rparr>"
    using T f2 g2 by blast
  show ?thesis using one two by (simp add: cache_get_def)
qed

lemma GetPrediction_collaborator_error_at_inputs:
  "GetPrediction down_env ''1'' (init_state 0) =
     (Inl (RpcError UNAVAILABLE ''failed to connect to all addresses''),
      \<lparr>world = 0, cache = Map.empty,
        trace = [EvCacheGet ''1'', EvGetMatch ''1'', EvBuildMatchFeatures ''1'']\<rparr>) \<and>
   GetPrediction short_env ''1'' (init_state 0) =
     (Inl (RpcError INVALID_ARGUMENT ''expected at least 4 features''),
      \<lparr>world = 0, cache = Map.empty,
        trace = [EvCacheGet ''1'', EvGetMatch ''1'', EvBuildMatchFeatures ''1'',
                 EvPredictMatchOutcome]\<rparr>) \<and>
   cache (snd (GetPrediction short_env ''1'' (init_state 0))) = cache (init_state 0)"
proof -
  let ?s = "init_state (0::real)"
  let ?e1 = "RpcError UNAVAILABLE ''failed to connect to all addresses''"
  let ?e2 = "RpcError INVALID_ARGUMENT ''expected at least 4 features''"
  have m1: "get_if_fresh (cache ?s) ''1'' (time_time down_env (world ?s)) 10 = None"
    by (simp add: get_if_fresh_def cache_get_def init_state_def)
  have g1: "GetMatch_stub down_env ''1'' (world ?s) = (Inr demo_match, 0)"
    by (simp add: down_env_def demo_env_def demo_GetMatch init_state_def)
  have b1: "BuildMatchFeatures_stub down_env ''1'' 0 = (Inl ?e1, 0)"
    by (simp add: down_env_def)
  have m2: "get_if_fresh (cache ?s) ''1'' (time_time short_env (world ?s)) 10 = None"
    by (simp add: get_if_fresh_def cache_get_def init_state_def)
  have g2: "GetMatch_stub short_env ''1'' (world ?s) = (Inr demo_match, 0)"
    by (simp add: short_env_def demo_env_def demo_GetMatch init_state_def)
  have b2: "BuildMatchFeatures_stub short_env ''1'' 0 = (Inr [2050, 2050, 0], 0)"
    by (simp add: short_env_def)
  have p2: "PredictMatchOutcome_stub short_env [2050, 2050, 0] 0 = (Inl ?e2, 0)"
    by (simp add: short_env_def demo_env_def short_PredictMatchOutcome)
  note A = GetPrediction_collaborator_error [OF m1 g1, of ?e1 0 "[]" 0 ?e1 ?s]
  note B = GetPrediction_collaborator_error [OF m2 g2, of ?e2 0 "[2050, 2050, 0]" 0 ?e2
      "snd (GetPrediction short_env ''1'' ?s)"]
  have a: "GetPrediction down_env ''1'' ?s =
     (Inl ?e1, \<lparr>world = 0, cache = Map.empty,
        trace = [EvCacheGet ''1'', EvGetMatch ''1'', EvBuildMatchFeatures ''1'']\<rparr>)"
    using A b1 by (simp add: init_state_def)
  have b: "GetPrediction short_env ''1'' ?s =
     (Inl ?e2, \<lparr>world = 0, cache = Map.empty,
        trace = [EvCacheGet ''1'', EvGetMatch ''1'', EvBuildMatchFeatures ''1'',
                 EvPredictMatchOutcome]\<rparr>)"
    using B b2 p2 by (simp add: init_state_def)
  show ?thesis using a b by (simp add: init_state_def)
qed

theorem cache_write_then_read_witness:
  "(105::real) - 100 < 10 \<and> (10::real) \<le> 120 - 100 \<and> ''2'' \<noteq> ''1'' \<and>
   cache_get (cache_set [''1'' \<mapsto> (50, 1 / 3, 1 / 3, 1 / 3)] ''1'' 100 (1 / 2) (1 / 5) (3 / 10)) ''1'' =
     Some (100, 1 / 2, 1 / 5, 3 / 10) \<and>
   get_if_fresh (cache_set Map.empty ''1'' 100 (1 / 2) (1 / 5) (3 / 10)) ''1'' 105 10 =
     Some (1 / 2, 1 / 5, 3 / 10) \<and>
   get_if_fresh (cache_set Map.empty ''1'' 100 (1 / 2) (1 / 5) (3 / 10)) ''1'' 120 10 = None \<and>
   get_if_fresh (cache_set Map.empty ''1'' 100 (1 / 2) (1 / 5) (3 / 10)) ''2'' 105 10 = None \<and>
   cache (snd (GetPrediction demo_env ''1''
       \<lparr>world = 105, cache = [''1'' \<mapsto> (100, 1 / 2, 1 / 5, 3 / 10)], trace = []\<rparr>)) =
     [''1'' \<mapsto> (100, 1 / 2, 1 / 5, 3 / 10)]"
proof -
  let ?s = "\<lparr>world = 105::real, cache = [''1'' \<mapsto> (100, 1 / 2, 1 / 5, 3 / 10)], trace = []\<rparr>"
  let ?d = "[''1'' \<mapsto> (50::real, 1 / 3 :: real, 1 / 3 :: real, 1 / 3 :: real)]"
  have h: "get_if_fresh (cache ?s) ''1'' (time_time demo_env (world ?s)) 10 \<noteq> None"
    by (simp add: get_if_fresh_def cache_get_def demo_env_def)
  have n: "cache_get (cache_set Map.empty ''1'' 100 (1 / 2) (1 / 5) (3 / 10)) ''2'' = None"
    by (simp add: cache_get_def cache_set_def)
  note A = cache_write_then_read [of ?d "''1''" 100 "1 / 2" "1 / 5" "3 / 10" "''2''" 105 10
      ?s demo_env]
  note B = cache_write_then_read [of Map.empty "''1''" 100 "1 / 2" "1 / 5" "3 / 10" "''2''" 105 10
      ?s demo_env]
  note C = cache_write_then_read [of Map.empty "''1''" 100 "1 / 2" "1 / 5" "3 / 10" "''2''" 120 10
      ?s demo_env]
  note D = cache_write_then_read [of "cache_set Map.empty ''1'' 100 (1 / 2) (1 / 5) (3 / 10)"
      "''2''" 0 0 0 0 "''1''" 105 10 ?s demo_env]
  have a: "cache_get (cache_set ?d ''1'' 100 (1 / 2) (1 / 5) (3 / 10)) ''1'' =
     Some (100, 1 / 2, 1 / 5, 3 / 10)"
    using A by blast
  have b: "get_if_fresh (cache_set Map.empty ''1'' 100 (1 / 2) (1 / 5) (3 / 10)) ''1'' 105 10 =
     Some (1 / 2, 1 / 5, 3 / 10)"
    using B by simp
  have c: "get_if_fresh (cache_set Map.empty ''1'' 100 (1 / 2) (1 / 5) (3 / 10)) ''1'' 120 10 = None"
    using C by simp
  have d: "get_if_fresh (cache_set Map.empty ''1'' 100 (1 / 2) (1 / 5) (3 / 10)) ''2'' 105 10 = None"
    using D n by blast
  have e: "cache (snd (GetPrediction demo_env ''1'' ?s)) = [''1'' \<mapsto> (100, 1 / 2, 1 / 5, 3 / 10)]"
    using B h by simp
  show ?thesis using a b c d e by simp
qed

section \<open>The outcome model on NaN\<close>

lemma float_add_Fin: "float_add (Fin x) (Fin y) = Fin (x + y)"
  by (simp add: float_add_def float_op_def)

lemma float_sub_Fin: "float_sub (Fin x) (Fin y) = Fin (x - y)"
  by (simp add: float_sub_def float_op_def)

lemma float_mul_Fin: "float_mul (Fin x) (Fin y) = Fin (x * y)"
  by (simp add: float_mul_def float_op_def)

lemma float_div_Fin: "float_div (Fin x) (Fin y) = Fin (x / y)"
  by (simp add: float_div_def float_op_def)

lemma float_gt_Fin: "float_gt (Fin x) (Fin y) \<longleftrightarrow> y < x"
  by (simp add: float_gt_def)

lemma float_le_Fin: "float_le (Fin x) (Fin y) \<longleftrightarrow> x \<le> y"
  by (simp add: float_le_def)

lemma py_max_Fin: "py_max (Fin a) (Fin b) = Fin (max a b)"
  by (simp add: py_max_def float_gt_def max_def)

lemma sigmoid_float_Fin:
  "sigmoid_float (Fin x) = (case sigmoid x of Inl e \<Rightarrow> Inl e | Inr h \<Rightarrow> Inr (Fin h))"
  by (simp add: sigmoid_float_def sigmoid_def math_exp_float_def float_neg_def float_div_Fin
      float_add_Fin split: sum.splits)

lemma float_base_Fin:
  "(if float_gt (Fin k) (Fin (1 / 2))
    then float_mul (float_div (Fin d) (Fin 300)) (Fin (12 / 10))
    else float_div (Fin d) (Fin 300)) = Fin (model_base d k)"
  by (simp add: float_gt_Fin float_mul_Fin float_div_Fin model_base_def)

text \<open>
  On a request whose features are all finite, the model over \<open>pyfloat\<close> is the model
  over the reals.
\<close>

lemma PredictMatchOutcome_float_finite:
  "PredictMatchOutcome_float (map Fin features) context =
     (case PredictMatchOutcome features context of
        Inl e \<Rightarrow> Inl e
      | Inr (r, c) \<Rightarrow>
          Inr (\<lparr>home_win_prob_f = Fin (home_win_prob r), draw_prob_f = Fin (draw_prob r),
                 away_win_prob_f = Fin (away_win_prob r)\<rparr>, c))"
proof (cases "length features < 4")
  case True
  then show ?thesis
    by (simp add: PredictMatchOutcome_float_def PredictMatchOutcome_def
        empty_PredictMatchOutcomeResponse_def)
next
  case False
  then have n: "map Fin features ! 2 = Fin (features ! 2)" "map Fin features ! 3 = Fin (features ! 3)"
    by simp_all
  have l: "\<not> length (map Fin features) < 4" using False by simp
  show ?thesis
  proof (cases "sigmoid (model_base (features ! 2) (features ! 3))")
    case (Inl e)
    have "PredictMatchOutcome_float (map Fin features) context = Inl e"
      unfolding PredictMatchOutcome_float_def Let_def n float_base_Fin sigmoid_float_Fin Inl
      using l by simp
    moreover have "PredictMatchOutcome features context = Inl e"
      using False by (simp add: PredictMatchOutcome_def Let_def Inl)
    ultimately show ?thesis by simp
  next
    case (Inr h)
    define dr where "dr = max (15 / 100) (35 / 100 - \<bar>features ! 2\<bar> / 1000)"
    define aw where "aw = max 0 (1 - h - dr)"
    define tot where "tot = h + dr + aw"
    have D: "py_max (Fin (15 / 100))
               (float_sub (Fin (35 / 100)) (float_div (float_abs (Fin (features ! 2))) (Fin 1000))) =
             Fin dr"
      by (simp add: dr_def float_abs_def float_div_Fin float_sub_Fin py_max_Fin)
    have A: "py_max (Fin 0) (float_sub (float_sub (Fin 1) (Fin h)) (Fin dr)) = Fin aw"
      by (simp add: aw_def float_sub_Fin py_max_Fin)
    have T: "float_add (float_add (Fin h) (Fin dr)) (Fin aw) = Fin tot"
      by (simp add: tot_def float_add_Fin)
    have F: "PredictMatchOutcome_float (map Fin features) context =
      (if tot \<le> 0
       then Inr (\<lparr>home_win_prob_f = Fin (1 / 3), draw_prob_f = Fin (1 / 3),
                   away_win_prob_f = Fin (1 / 3)\<rparr>, context)
       else Inr (\<lparr>home_win_prob_f = Fin (h / tot), draw_prob_f = Fin (dr / tot),
                   away_win_prob_f = Fin (aw / tot)\<rparr>, context))"
      unfolding PredictMatchOutcome_float_def Let_def n float_base_Fin sigmoid_float_Fin Inr
      using l by (simp only: if_False sum.case D A T float_le_Fin float_div_Fin)
    have R: "PredictMatchOutcome features context = Inr (normalize_probs h dr aw, context)"
      using False by (simp add: PredictMatchOutcome_def Let_def Inr dr_def aw_def)
    have N: "normalize_probs h dr aw =
      (if tot \<le> 0
       then \<lparr>home_win_prob = 1 / 3, draw_prob = 1 / 3, away_win_prob = 1 / 3\<rparr>
       else \<lparr>home_win_prob = h / tot, draw_prob = dr / tot, away_win_prob = aw / tot\<rparr>)"
      by (simp add: normalize_probs_def Let_def tot_def)
    show ?thesis by (simp add: F R N)
  qed
qed

text \<open>
  C3. A request of four features whose elo\_diff is NaN: \<^verbatim>\<open>_sigmoid\<close> gives NaN,
  \<^verbatim>\<open>max(0.15, nan)\<close> gives 0.15 and \<^verbatim>\<open>max(0.0, nan)\<close> gives 0.0, the total is NaN,
  \<^verbatim>\<open>total <= 0\<close> is false, and each of the three values is divided by NaN. The
  servicer returns NaN three times with the status left OK: no component is in [0, 1],
  the sum is not 1, and the fallback to one third each is not taken.
\<close>

theorem PredictMatchOutcome_float_nan:
  "PredictMatchOutcome_float [Fin 0, Fin 0, NaN, Fin 0] fresh_context =
     Inr (\<lparr>home_win_prob_f = NaN, draw_prob_f = NaN, away_win_prob_f = NaN\<rparr>, fresh_context)"
  by (simp add: PredictMatchOutcome_float_def Let_def float_div_def float_op_def float_gt_def
      sigmoid_float_def math_exp_float_def float_neg_def float_add_def float_abs_def
      float_sub_def py_max_def float_le_def)

section \<open>GetPrediction seen by its caller\<close>

text \<open>
  Whatever exception leaves \<^verbatim>\<open>GetPrediction\<close>, its caller reads the status UNKNOWN:
  the method sets no status on its context.
\<close>

lemma GetPrediction_servicer_raises:
  assumes "fst (GetPrediction env mid s) = Inl e"
  shows "exc_code (unary_unary (GetPrediction_servicer env s) mid) = Some UNKNOWN"
  using assms by (simp add: unary_unary_def GetPrediction_servicer_def exc_code_def)

lemma GetPrediction_servicer_returns:
  assumes "fst (GetPrediction env mid s) = Inr r"
  shows "unary_unary (GetPrediction_servicer env s) mid = Inr r"
  using assms by (simp add: unary_unary_def GetPrediction_servicer_def fresh_context_def)

lemma GetPrediction_not_found_caller:
  assumes "get_match repo mid = None"
    and "GetMatch_stub env mid (world s) = (unary_unary (GetMatch repo) mid, w1)"
  shows "exc_code (unary_unary (GetPrediction_servicer env s) mid) = Some UNKNOWN"
proof -
  have "fst (GetPrediction env mid s) = Inl (RpcError NOT_FOUND ''Match not found'')"
    using GetPrediction_not_found [OF assms] by simp
  then show ?thesis by (rule GetPrediction_servicer_raises)
qed

text \<open>
  C2. The demo repository does not know the id X. The Match Provider answers NOT\_FOUND,
  that exception leaves \<^verbatim>\<open>GetPrediction\<close>, and the caller of \<^verbatim>\<open>GetPrediction\<close> reads
  the status UNKNOWN, not NOT\_FOUND. No feature or model call was made and the cache has
  no entry for X.
\<close>

theorem GetPrediction_not_found_status:
  "get_match demo_repo ''X'' = None \<and>
   GetPrediction demo_env ''X'' (init_state 0) =
     (Inl (RpcError NOT_FOUND ''Match not found''),
      \<lparr>world = 0, cache = Map.empty, trace = [EvCacheGet ''X'', EvGetMatch ''X'']\<rparr>) \<and>
   exc_code (unary_unary (GetPrediction_servicer demo_env (init_state 0)) ''X'') = Some UNKNOWN \<and>
   exc_code (unary_unary (GetPrediction_servicer demo_env (init_state 0)) ''X'') \<noteq> Some NOT_FOUND \<and>
   cache (snd (GetPrediction demo_env ''X'' (init_state 0))) ''X'' = None"
proof -
  have r: "get_match demo_repo ''X'' = None" by (simp add: get_match_def demo_repo_def)
  have g: "GetMatch_stub demo_env ''X'' (world (init_state 0)) =
             (unary_unary (GetMatch demo_repo) ''X'', 0)"
    by (simp add: demo_env_def init_state_def)
  have e: "GetPrediction demo_env ''X'' (init_state 0) =
     (Inl (RpcError NOT_FOUND ''Match not found''),
      \<lparr>world = 0, cache = Map.empty, trace = [EvCacheGet ''X'', EvGetMatch ''X'']\<rparr>)"
    using GetPrediction_not_found [OF r g] by (simp add: init_state_def)
  have f: "fst (GetPrediction demo_env ''X'' (init_state 0)) =
             Inl (RpcError NOT_FOUND ''Match not found'')"
    by (simp add: e)
  show ?thesis
    using r e GetPrediction_servicer_raises [OF f] by simp
qed

text \<open>
  C6. The feature builder cannot be reached (UNAVAILABLE), or the model rejects its
  request (INVALID\_ARGUMENT): that exception leaves \<^verbatim>\<open>GetPrediction\<close> and the cache is
  not written, but the caller of \<^verbatim>\<open>GetPrediction\<close> reads the status UNKNOWN in both
  cases, not the collaborator's.
\<close>

theorem GetPrediction_collaborator_error_status:
  "fst (GetPrediction down_env ''1'' (init_state 0)) =
     Inl (RpcError UNAVAILABLE ''failed to connect to all addresses'') \<and>
   exc_code (unary_unary (GetPrediction_servicer down_env (init_state 0)) ''1'') = Some UNKNOWN \<and>
   cache (snd (GetPrediction down_env ''1'' (init_state 0))) = Map.empty \<and>
   fst (GetPrediction short_env ''1'' (init_state 0)) =
     Inl (RpcError INVALID_ARGUMENT ''expected at least 4 features'') \<and>
   exc_code (unary_unary (GetPrediction_servicer short_env (init_state 0)) ''1'') = Some UNKNOWN \<and>
   cache (snd (GetPrediction short_env ''1'' (init_state 0))) = Map.empty"
proof -
  note W1 = GetPrediction_collaborator_error_at_inputs [THEN conjunct1]
  note W2 = GetPrediction_collaborator_error_at_inputs [THEN conjunct2, THEN conjunct1]
  have a: "fst (GetPrediction down_env ''1'' (init_state 0)) =
     Inl (RpcError UNAVAILABLE ''failed to connect to all addresses'')"
    by (simp add: W1)
  have b: "fst (GetPrediction short_env ''1'' (init_state 0)) =
     Inl (RpcError INVALID_ARGUMENT ''expected at least 4 features'')"
    by (simp add: W2)
  have c: "cache (snd (GetPrediction down_env ''1'' (init_state 0))) = Map.empty"
    by (simp add: W1)
  have d: "cache (snd (GetPrediction short_env ''1'' (init_state 0))) = Map.empty"
    by (simp add: W2)
  show ?thesis
    using a b c d GetPrediction_servicer_raises [OF a] GetPrediction_servicer_raises [OF b]
    by simp
qed

section \<open>The stream and the clock\<close>







end
